theory Spec2Isabelle
  imports Main
begin

section \<open>The browser environment of theme.js\<close>

text \<open>
  The script \<^verbatim>\<open>JS/theme.js\<close> reads and writes \<^verbatim>\<open>localStorage\<close>, assigns the class of
  the \<^verbatim>\<open>body\<close> element, toggles class tokens of elements, registers click listeners and calls
  three optional global functions. The page and the browser are the script's input, so
  they are the state of the model; every function of the script is a function on that
  state.
\<close>

subsection \<open>Exceptions\<close>

datatype js_error = SecurityError | QuotaExceededError | TypeError

subsection \<open>Web storage\<close>

text \<open>
  \<^verbatim>\<open>localStorage\<close>: the stored items, and the two ways an access throws. With \<open>blocked\<close>
  every access raises \<^verbatim>\<open>SecurityError\<close> (storage disabled); with \<open>quota_full\<close> a write
  raises \<^verbatim>\<open>QuotaExceededError\<close>.
\<close>

record storage =
  items :: "string \<rightharpoonup> string"
  blocked :: bool
  quota_full :: bool

definition getItem :: "storage \<Rightarrow> string \<Rightarrow> js_error + string option" where
  "getItem s k = (if blocked s then Inl SecurityError else Inr (items s k))"

definition setItem :: "storage \<Rightarrow> string \<Rightarrow> string \<Rightarrow> js_error + storage" where
  "setItem s k v =
     (if blocked s then Inl SecurityError
      else if quota_full s then Inl QuotaExceededError
      else Inr (s\<lparr>items := (items s)(k \<mapsto> v)\<rparr>))"

subsection \<open>Class attributes and their tokens\<close>

text \<open>
  The class of an element is a string, the value of its \<^verbatim>\<open>class\<close> attribute. Its class
  list is the token set of that string: the pieces between ASCII whitespace, without
  the empty ones, each once, in the order of their first occurrence.
\<close>

definition is_ws :: "char \<Rightarrow> bool" where
  "is_ws c = (c \<in> set [CHR 0x09, CHR 0x0A, CHR 0x0C, CHR 0x0D, CHR 0x20])"

fun split_ws :: "string \<Rightarrow> string list" where
  "split_ws [] = [[]]"
| "split_ws (c # cs) =
     (if is_ws c then [] # split_ws cs
      else (case split_ws cs of [] \<Rightarrow> [[c]] | p # ps \<Rightarrow> (c # p) # ps))"

definition tokens :: "string \<Rightarrow> string list" where
  "tokens s = rev (remdups (rev (filter (\<lambda>p. p \<noteq> []) (split_ws s))))"

text \<open>The serialisation of a token set: the tokens, one space between two of them.\<close>

fun serialize :: "string list \<Rightarrow> string" where
  "serialize [] = []"
| "serialize [t] = t"
| "serialize (t # u # ts) = t @ '' '' @ serialize (u # ts)"

text \<open>
  \<^verbatim>\<open>classList.remove(tok)\<close>, \<^verbatim>\<open>classList.toggle(tok)\<close> and \<^verbatim>\<open>classList.toggle(tok, force)\<close>,
  as functions on the class attribute. Only a call that changes the token set, and
  every \<^verbatim>\<open>remove\<close>, writes the attribute back, serialised.
\<close>

definition classList_remove :: "string \<Rightarrow> string \<Rightarrow> string" where
  "classList_remove tok cn = serialize (removeAll tok (tokens cn))"

definition classList_toggle :: "string \<Rightarrow> string \<Rightarrow> string" where
  "classList_toggle tok cn =
     (if tok \<in> set (tokens cn) then serialize (removeAll tok (tokens cn))
      else serialize (tokens cn @ [tok]))"

definition classList_toggle_force :: "string \<Rightarrow> bool \<Rightarrow> string \<Rightarrow> string" where
  "classList_toggle_force tok force cn =
     (if tok \<in> set (tokens cn) then (if force then cn else serialize (removeAll tok (tokens cn)))
      else (if force then serialize (tokens cn @ [tok]) else cn))"

text \<open>
  A class selector \<^verbatim>\<open>.c\<close> matches an element with the token \<open>c\<close>; in a document in quirks
  mode the comparison ignores the case of ASCII letters.
\<close>

definition ascii_lower :: "char \<Rightarrow> char" where
  "ascii_lower c =
     (let n = (of_char c :: nat) in if 65 \<le> n \<and> n \<le> 90 then char_of (n + 32) else c)"

definition same_class :: "bool \<Rightarrow> string \<Rightarrow> string \<Rightarrow> bool" where
  "same_class quirks_mode a b =
     (if quirks_mode then map ascii_lower a = map ascii_lower b else a = b)"

definition class_matches :: "bool \<Rightarrow> string \<Rightarrow> string \<Rightarrow> bool" where
  "class_matches quirks_mode c cn = list_ex (same_class quirks_mode c) (tokens cn)"

subsection \<open>Elements\<close>

text \<open>
  An element of the page, with the attributes the script reads or writes: its id, its
  class, its \<^verbatim>\<open>data-theme\<close> attribute (\<open>None\<close> when the attribute is absent, where
  \<^verbatim>\<open>dataset.theme\<close> is \<^verbatim>\<open>undefined\<close>) and its text.
\<close>

record element =
  elem_id :: string
  className :: string
  dataset_theme :: "string option"
  textContent :: string

definition classList :: "element \<Rightarrow> string list" where
  "classList e = tokens (className e)"

subsection \<open>The page\<close>

datatype hook = RecolorMap | UpdatePanel | UpdateAbbrBadge

text \<open>What a property of \<^verbatim>\<open>window\<close> holds: nothing, a value that is not a function, or a function.\<close>

datatype js_global = Absent | NonFunction | Function

text \<open>An event target: the document, or the element at a position of the page.\<close>

datatype node = Document | Element nat

text \<open>
  The four anonymous click listeners of the script, each with the variable it closes
  over (the dropdown element).
\<close>

datatype listener =
    ToggleClick nat
  | DocumentClick nat
  | DropdownClick
  | OptionClick nat

text \<open>
  The state: the storage, the mode of the document, the elements, the global scope, the
  listeners in the order of their registration, and the calls made to the optional
  hooks. The elements are kept in document order in three parts: those before the body
  (the root, the head and what it holds), the body, and those after it. The body is an
  element like the others: selectors and id lookups see it, and a click can pass it.
\<close>

record world =
  localStorage :: storage
  quirks :: bool
  preceding :: "element list"
  body :: element
  following :: "element list"
  window :: "hook \<Rightarrow> js_global"
  listeners :: "(node \<times> listener) list"
  hook_calls :: "(hook \<times> string) list"

definition elements :: "world \<Rightarrow> element list" where
  "elements w = preceding w @ body w # following w"

definition body_at :: "world \<Rightarrow> nat" where
  "body_at w = length (preceding w)"

definition body_className :: "world \<Rightarrow> string" where
  "body_className w = className (body w)"

text \<open>The element at position \<open>i\<close> replaced by what \<open>f\<close> makes of it.\<close>

definition update_element :: "nat \<Rightarrow> (element \<Rightarrow> element) \<Rightarrow> world \<Rightarrow> world" where
  "update_element i f w =
     (let es = (elements w)[i := f (elements w ! i)]; n = body_at w
      in w\<lparr>preceding := take n es, body := es ! n, following := drop (Suc n) es\<rparr>)"

text \<open>
  A statement runs on the state and completes normally (\<open>None\<close>) or throws; what it did
  before throwing stays done.
\<close>

type_synonym stmt = "world \<Rightarrow> js_error option \<times> world"

fun block :: "stmt list \<Rightarrow> stmt" where
  "block [] w = (None, w)"
| "block (s # ss) w =
     (case s w of
        (None, w') \<Rightarrow> block ss w'
      | (Some e, w') \<Rightarrow> (Some e, w'))"

text \<open>\<^verbatim>\<open>try { s } catch (e) {}\<close>\<close>

definition try_catch :: "stmt \<Rightarrow> stmt" where
  "try_catch s w = (None, snd (s w))"

definition effect :: "(world \<Rightarrow> world) \<Rightarrow> stmt" where
  "effect f w = (None, f w)"

definition localStorage_setItem :: "string \<Rightarrow> string \<Rightarrow> stmt" where
  "localStorage_setItem k v w =
     (case setItem (localStorage w) k v of
        Inl e \<Rightarrow> (Some e, w)
      | Inr s \<Rightarrow> (None, w\<lparr>localStorage := s\<rparr>))"

text \<open>\<^verbatim>\<open>document.querySelectorAll('.' + c)\<close>: the positions of the elements the selector matches.\<close>

definition querySelectorAll_class :: "string \<Rightarrow> world \<Rightarrow> nat list" where
  "querySelectorAll_class c w =
     filter (\<lambda>i. class_matches (quirks w) c (className (elements w ! i))) [0..<length (elements w)]"

text \<open>\<^verbatim>\<open>document.getElementById(i)\<close>: the first element with that id, if any.\<close>

definition getElementById :: "string \<Rightarrow> world \<Rightarrow> nat option" where
  "getElementById i w =
     find (\<lambda>k. elem_id (elements w ! k) = i) [0..<length (elements w)]"

definition update_classList :: "nat \<Rightarrow> (string \<Rightarrow> string) \<Rightarrow> world \<Rightarrow> world" where
  "update_classList i f w = update_element i (\<lambda>e. e\<lparr>className := f (className e)\<rparr>) w"

text \<open>String conversion of a value that is a string or \<^verbatim>\<open>undefined\<close>.\<close>

definition ToString :: "string option \<Rightarrow> string" where
  "ToString v = (case v of None \<Rightarrow> ''undefined'' | Some s \<Rightarrow> s)"

text \<open>Decimal rendering of a year, as the assignment of a number to \<^verbatim>\<open>textContent\<close> does.\<close>

definition digit_char :: "nat \<Rightarrow> char" where
  "digit_char n = ''0123456789'' ! (n mod 10)"

fun string_of_nat :: "nat \<Rightarrow> string" where
  "string_of_nat n =
     (if n < 10 then [digit_char n] else string_of_nat (n div 10) @ [digit_char (n mod 10)])"

section \<open>The script\<close>

definition STORAGE_KEY :: string where
  "STORAGE_KEY = ''portal-theme''"

definition DEFAULT :: string where
  "DEFAULT = ''theme-current''"

subsection \<open>applyTheme\<close>

text \<open>\<^verbatim>\<open>document.body.className = s\<close>\<close>

definition set_body_className :: "string \<Rightarrow> world \<Rightarrow> world" where
  "set_body_className s w = w\<lparr>body := (body w)\<lparr>className := s\<rparr>\<rparr>"

text \<open>The body of the \<^verbatim>\<open>forEach\<close> callback of \<^verbatim>\<open>applyTheme\<close>, for the option at position \<open>opt\<close>.\<close>

definition mark_active :: "string option \<Rightarrow> nat \<Rightarrow> world \<Rightarrow> world" where
  "mark_active theme opt w =
     update_classList opt
       (classList_toggle_force ''is-active'' (dataset_theme (elements w ! opt) = theme)) w"

text \<open>
  The selector runs after the class of the body is written, over the whole document,
  the body included.
\<close>

definition applyTheme :: "string option \<Rightarrow> world \<Rightarrow> world" where
  "applyTheme theme w =
     (let w1 = set_body_className (ToString theme) w
      in fold (mark_active theme) (querySelectorAll_class ''theme-option'' w1) w1)"

subsection \<open>setTheme\<close>

text \<open>
  Modelled from the spec: the bodies of the three hooks \<^verbatim>\<open>recolorMap\<close>, \<^verbatim>\<open>updatePanel\<close>
  and \<^verbatim>\<open>updateAbbrBadge\<close>, which other files of the portal define. The spec treats them
  as opaque observers, so a call returns normally and is recorded, together with the
  body class the hook finds, and changes nothing else. The guard is the script's:
  \<^verbatim>\<open>if (typeof window.h === 'function') window.h();\<close>
\<close>

definition call_if_function :: "hook \<Rightarrow> stmt" where
  "call_if_function h w =
     (if window w h = Function
      then (None, w\<lparr>hook_calls := hook_calls w @ [(h, body_className w)]\<rparr>)
      else (None, w))"

definition setTheme :: "string option \<Rightarrow> stmt" where
  "setTheme theme =
     block [
       try_catch (localStorage_setItem STORAGE_KEY (ToString theme)),
       effect (applyTheme theme),
       call_if_function RecolorMap,
       call_if_function UpdatePanel,
       call_if_function UpdateAbbrBadge]"

subsection \<open>loadTheme\<close>

text \<open>\<^verbatim>\<open>v || d\<close> for a value that is \<^verbatim>\<open>null\<close> or a string: \<^verbatim>\<open>null\<close> and the empty string are falsy.\<close>

definition or_default :: "string option \<Rightarrow> string \<Rightarrow> string" where
  "or_default v d = (case v of None \<Rightarrow> d | Some s \<Rightarrow> if s = [] then d else s)"

text \<open>
  The value of \<open>saved\<close> after the \<^verbatim>\<open>try\<close>: when \<^verbatim>\<open>getItem\<close> throws, the assignment inside
  the \<^verbatim>\<open>try\<close> is not reached and \<open>saved\<close> keeps the default it was declared with.
\<close>

definition saved_theme :: "world \<Rightarrow> string" where
  "saved_theme w =
     (case getItem (localStorage w) STORAGE_KEY of
        Inl e \<Rightarrow> DEFAULT
      | Inr v \<Rightarrow> or_default v DEFAULT)"

definition loadTheme :: stmt where
  "loadTheme w = (let saved = saved_theme w in (None, applyTheme (Some saved) w))"

subsection \<open>The click listeners\<close>

definition addEventListener :: "node \<Rightarrow> listener \<Rightarrow> world \<Rightarrow> world" where
  "addEventListener n l w = w\<lparr>listeners := listeners w @ [(n, l)]\<rparr>"

text \<open>Whether the listener calls \<^verbatim>\<open>e.stopPropagation()\<close>.\<close>

fun stops_propagation :: "listener \<Rightarrow> bool" where
  "stops_propagation (ToggleClick dropdown) = True"
| "stops_propagation (DocumentClick dropdown) = False"
| "stops_propagation DropdownClick = True"
| "stops_propagation (OptionClick dropdown) = False"

text \<open>
  What the listener does to the page; \<open>this\<close> is the node it is registered on. The
  document has no \<^verbatim>\<open>dataset\<close>, so the option listener would throw there.
\<close>

fun listener_body :: "listener \<Rightarrow> node \<Rightarrow> stmt" where
  "listener_body (ToggleClick dropdown) this w =
     effect (update_classList dropdown (classList_toggle ''open'')) w"
| "listener_body (DocumentClick dropdown) this w =
     effect (update_classList dropdown (classList_remove ''open'')) w"
| "listener_body DropdownClick this w = (None, w)"
| "listener_body (OptionClick dropdown) (Element opt) w =
     block [
       setTheme (dataset_theme (elements w ! opt)),
       effect (update_classList dropdown (classList_remove ''open''))] w"
| "listener_body (OptionClick dropdown) Document w = (Some TypeError, w)"

subsection \<open>Initialisation\<close>

text \<open>
  The assignment to \<^verbatim>\<open>textContent\<close> also drops what the element holds. The positions of
  the page stay as they are here, so the model admits every click the page admits.
\<close>

definition set_year :: "nat \<Rightarrow> stmt" where
  "set_year year w =
     (case getElementById ''year'' w of
        None \<Rightarrow> (None, w)
      | Some yearEl \<Rightarrow>
          (None, update_element yearEl (\<lambda>e. e\<lparr>textContent := string_of_nat year\<rparr>) w))"

definition wire_options :: "nat \<Rightarrow> stmt" where
  "wire_options dropdown w =
     (None, fold (\<lambda>opt. addEventListener (Element opt) (OptionClick dropdown))
              (querySelectorAll_class ''theme-option'' w) w)"

text \<open>
  The \<^verbatim>\<open>DOMContentLoaded\<close> handler; \<open>year\<close> is what \<^verbatim>\<open>new Date().getFullYear()\<close> returns.
  The \<^verbatim>\<open>return\<close> of line 52 leaves the handler.
\<close>

definition init :: "nat \<Rightarrow> stmt" where
  "init year w =
     (case loadTheme w of
        (Some e, w1) \<Rightarrow> (Some e, w1)
      | (None, w1) \<Rightarrow>
          (case (getElementById ''themeToggle'' w1, getElementById ''themeDropdown'' w1) of
             (Some toggle, Some dropdown) \<Rightarrow>
               block [
                 effect (addEventListener (Element toggle) (ToggleClick dropdown)),
                 effect (addEventListener Document (DocumentClick dropdown)),
                 effect (addEventListener (Element dropdown) DropdownClick),
                 wire_options dropdown,
                 set_year year] w1
           | _ \<Rightarrow> (None, w1)))"

subsection \<open>Dispatch of a click\<close>

text \<open>
  The listeners of one node run in the order of their registration; an exception of a
  listener is reported by the browser and the dispatch goes on.
\<close>

fun run_listeners :: "listener list \<Rightarrow> node \<Rightarrow> world \<Rightarrow> world" where
  "run_listeners [] n w = w"
| "run_listeners (l # ls) n w = run_listeners ls n (snd (listener_body l n w))"

definition listeners_on :: "node \<Rightarrow> world \<Rightarrow> listener list" where
  "listeners_on n w = map snd (filter (\<lambda>r. fst r = n) (listeners w))"

text \<open>
  Bubbling: the event visits the nodes of its path in turn and goes no further once a
  listener of the node it is at has stopped the propagation.
\<close>

fun propagate :: "node list \<Rightarrow> world \<Rightarrow> world" where
  "propagate [] w = w"
| "propagate (n # ns) w =
     (let ls = listeners_on n w;
          w' = run_listeners ls n w
      in if list_ex stops_propagation ls then w' else propagate ns w')"

text \<open>
  A click, given by the positions of its target and the target's ancestors, innermost
  first; the document ends every path.
\<close>

definition click :: "nat list \<Rightarrow> world \<Rightarrow> world" where
  "click path w = propagate (map Element path @ [Document]) w"

definition dropdown_open :: "nat \<Rightarrow> world \<Rightarrow> bool" where
  "dropdown_open dropdown w = (''open'' \<in> set (classList (elements w ! dropdown)))"


section \<open>Notions used in the statements\<close>

subsection \<open>Tokens and theme options\<close>

text \<open>A token that a class list accepts: not empty and free of whitespace.\<close>

definition valid_token :: "string \<Rightarrow> bool" where
  "valid_token t = (t \<noteq> [] \<and> (\<forall>c \<in> set t. \<not> is_ws c))"

text \<open>
  A theme option is an element that the selector \<^verbatim>\<open>.theme-option\<close> matches; \<open>q\<close> is the mode
  of the document. An element is marked active when its class list holds \<^verbatim>\<open>is-active\<close>.
\<close>

definition is_theme_option :: "bool \<Rightarrow> element \<Rightarrow> bool" where
  "is_theme_option q e = class_matches q ''theme-option'' (className e)"

definition is_active :: "element \<Rightarrow> bool" where
  "is_active e = (''is-active'' \<in> set (classList e))"

text \<open>What one round of the \<^verbatim>\<open>forEach\<close> of \<^verbatim>\<open>applyTheme\<close> makes of an element.\<close>

definition activate :: "string option \<Rightarrow> element \<Rightarrow> element" where
  "activate theme e =
     e\<lparr>className := classList_toggle_force ''is-active'' (dataset_theme e = theme) (className e)\<rparr>"

definition sync_option :: "bool \<Rightarrow> string option \<Rightarrow> element \<Rightarrow> element" where
  "sync_option q theme e = (if is_theme_option q e then activate theme e else e)"

text \<open>The elements once the class of the body is written, before the loop.\<close>

definition with_body_class :: "string \<Rightarrow> world \<Rightarrow> element list" where
  "with_body_class s w = (elements w)[body_at w := (body w)\<lparr>className := s\<rparr>]"

subsection \<open>What setTheme leaves behind\<close>

definition stored_after :: "string \<Rightarrow> storage \<Rightarrow> storage" where
  "stored_after v s = (case setItem s STORAGE_KEY v of Inl e \<Rightarrow> s | Inr s' \<Rightarrow> s')"

definition hooks_called :: "string \<Rightarrow> world \<Rightarrow> (hook \<times> string) list" where
  "hooks_called c w =
     map (\<lambda>h. (h, c)) (filter (\<lambda>h. window w h = Function) [RecolorMap, UpdatePanel, UpdateAbbrBadge])"

subsection \<open>The state machine of the dropdown, in the words of the spec\<close>

text \<open>
  Two states, closed and open (\<open>True\<close> is open). A toggle-click flips the state, an
  outside click and an option selection force closed, and a click inside the dropdown
  is no transition.
\<close>

datatype dropdown_event = ToggleEvent | OutsideClick | OptionSelection | InsideClick

fun spec_step :: "dropdown_event \<Rightarrow> bool \<Rightarrow> bool" where
  "spec_step ToggleEvent is_open = (\<not> is_open)"
| "spec_step OutsideClick is_open = False"
| "spec_step OptionSelection is_open = False"
| "spec_step InsideClick is_open = is_open"

text \<open>The transition that each listener of the script stands for.\<close>

fun event_of :: "listener \<Rightarrow> dropdown_event" where
  "event_of (ToggleClick dropdown) = ToggleEvent"
| "event_of (DocumentClick dropdown) = OutsideClick"
| "event_of DropdownClick = InsideClick"
| "event_of (OptionClick dropdown) = OptionSelection"

subsection \<open>The page after loading\<close>

text \<open>The element at position \<open>i\<close> has an option listener.\<close>

definition option_listener_on :: "world \<Rightarrow> nat \<Rightarrow> bool" where
  "option_listener_on w i =
     list_ex (\<lambda>r. fst r = Element i \<and> event_of (snd r) = OptionSelection) (listeners w)"

text \<open>
  The listeners of a page on which the initialisation found the toggle and the dropdown:
  the three of the dropdown, then one for each of the positions \<open>opts\<close> that the selector
  matched when the page was wired.
\<close>

definition wired :: "nat \<Rightarrow> nat \<Rightarrow> nat list \<Rightarrow> world \<Rightarrow> bool" where
  "wired toggle dropdown opts w =
     (listeners w =
        [(Element toggle, ToggleClick dropdown),
         (Document, DocumentClick dropdown),
         (Element dropdown, DropdownClick)] @
        map (\<lambda>opt. (Element opt, OptionClick dropdown)) opts
      \<and> distinct opts
      \<and> toggle \<noteq> dropdown
      \<and> dropdown < length (elements w))"

text \<open>The page once the script has run on it and the user has clicked along \<open>history\<close>.\<close>

definition loaded :: "nat \<Rightarrow> world \<Rightarrow> nat list list \<Rightarrow> world" where
  "loaded year page history = fold click history (snd (init year page))"

text \<open>
  The state of the dropdown after a click along \<open>path\<close>, from its state \<open>s\<close> before: the
  transitions of the listeners the click meets, in the order it meets them. \<open>opt\<close> tells
  which positions have an option listener.
\<close>

fun predicted :: "nat \<Rightarrow> nat \<Rightarrow> (nat \<Rightarrow> bool) \<Rightarrow> nat list \<Rightarrow> bool \<Rightarrow> bool" where
  "predicted tg d opt [] s = spec_step OutsideClick s"
| "predicted tg d opt (i # path) s =
     (let s1 = (if i = tg then spec_step ToggleEvent s else s);
          s2 = (if opt i then spec_step OptionSelection s1 else s1)
      in if i = tg \<or> i = d then s2 else predicted tg d opt path s2)"

text \<open>
  Which event of the spec's machine a click is, read from its path. The click belongs
  to the first of the toggle and the dropdown that its path reaches: inside the
  dropdown it is an option selection if it went through a theme option and a plain
  inside click otherwise; at the toggle it is a toggle-click. A path that reaches
  neither is an outside click, or an option selection if a theme option lies on it. A
  click that reaches the toggle through a theme option, or on a toggle that is itself a
  theme option, is an option selection and a toggle-click at once: it is no single
  event, and the value is \<open>None\<close>.
\<close>

definition classify :: "nat \<Rightarrow> nat \<Rightarrow> world \<Rightarrow> nat list \<Rightarrow> dropdown_event option" where
  "classify toggle dropdown w path =
     (let outside = (\<lambda>i. i \<noteq> toggle \<and> i \<noteq> dropdown);
          through_option = list_ex (option_listener_on w) (takeWhile outside path)
      in case dropWhile outside path of
           [] \<Rightarrow> Some (if through_option then OptionSelection else OutsideClick)
         | s # up \<Rightarrow>
             if s = dropdown
             then Some (if through_option \<or> option_listener_on w dropdown
                        then OptionSelection else InsideClick)
             else if through_option \<or> option_listener_on w toggle then None
             else Some ToggleEvent)"

text \<open>The same, walking the path; \<open>through\<close> tells whether a theme option was passed.\<close>

fun classify_from ::
  "nat \<Rightarrow> nat \<Rightarrow> (nat \<Rightarrow> bool) \<Rightarrow> bool \<Rightarrow> nat list \<Rightarrow> dropdown_event option" where
  "classify_from tg d opt through [] = Some (if through then OptionSelection else OutsideClick)"
| "classify_from tg d opt through (i # path) =
     (if i = d then Some (if through \<or> opt d then OptionSelection else InsideClick)
      else if i = tg then (if through \<or> opt tg then None else Some ToggleEvent)
      else classify_from tg d opt (through \<or> opt i) path)"

section \<open>Example pages\<close>

text \<open>An element as the markup gives it: id, class, \<^verbatim>\<open>data-theme\<close>, no text.\<close>

definition markup :: "string \<Rightarrow> string \<Rightarrow> string option \<Rightarrow> element" where
  "markup i cn t = \<lparr>elem_id = i, className = cn, dataset_theme = t, textContent = []\<rparr>"

definition empty_storage :: storage where
  "empty_storage = \<lparr>items = Map.empty, blocked = False, quota_full = False\<rparr>"

text \<open>
  A portal page: the root element (position 0), the body (1), the toggle button (2), the
  dropdown (3) with two options (4 and 5), the footer year (6). The page defines
  \<^verbatim>\<open>recolorMap\<close> and \<^verbatim>\<open>updateAbbrBadge\<close>, and \<^verbatim>\<open>updatePanel\<close> is not a function there. A
  click on the second option has the path \<open>[5, 3, 1, 0]\<close>: the option, the dropdown
  around it, the body, the root.
\<close>

definition portal_page :: world where
  "portal_page =
     \<lparr>localStorage = empty_storage,
      quirks = False,
      preceding = [markup [] [] None],
      body = markup [] ''theme-old extra'' None,
      following =
        [markup ''themeToggle'' ''btn'' None,
         markup ''themeDropdown'' ''menu'' None,
         markup [] ''theme-option is-active'' (Some ''theme-current''),
         markup [] ''theme-option'' (Some ''theme-dark''),
         markup ''year'' [] None],
      window = (\<lambda>h. case h of RecolorMap \<Rightarrow> Function | UpdatePanel \<Rightarrow> NonFunction
                              | UpdateAbbrBadge \<Rightarrow> Function),
      listeners = [],
      hook_calls = []\<rparr>"

text \<open>The same page in a browser that refuses access to the storage.\<close>

definition private_page :: world where
  "private_page = portal_page\<lparr>localStorage := empty_storage\<lparr>blocked := True\<rparr>\<rparr>"

text \<open>The same page with the empty string stored as the theme.\<close>

definition blank_page :: world where
  "blank_page =
     portal_page\<lparr>localStorage := empty_storage\<lparr>items := [STORAGE_KEY \<mapsto> []]\<rparr>\<rparr>"

text \<open>A page with a footer year and a theme option, and no theme button.\<close>

definition footer_page :: world where
  "footer_page =
     \<lparr>localStorage = empty_storage,
      quirks = False,
      preceding = [markup [] [] None],
      body = markup [] [] None,
      following = [markup ''year'' [] None, markup [] ''theme-option'' (Some ''theme-dark'')],
      window = (\<lambda>h. Absent),
      listeners = [],
      hook_calls = []\<rparr>"



text \<open>
  A page whose body carries \<^verbatim>\<open>data-theme="theme-option"\<close>, with an option for the theme of
  that name.
\<close>

definition marked_body_page :: world where
  "marked_body_page =
     \<lparr>localStorage = empty_storage,
      quirks = False,
      preceding = [markup [] [] None],
      body = markup [] [] (Some ''theme-option''),
      following =
        [markup ''themeToggle'' [] None,
         markup ''themeDropdown'' [] None,
         markup [] ''theme-option'' (Some ''theme-option'')],
      window = (\<lambda>h. Absent),
      listeners = [],
      hook_calls = []\<rparr>"

section \<open>Properties of the model\<close>

declare string_of_nat.simps [simp del]

subsection \<open>Tokens\<close>

text \<open>
  The token set of a serialised token set is that token set, so the class list after
  \<^verbatim>\<open>remove\<close> and \<^verbatim>\<open>toggle\<close> is the list the call computes.
\<close>

lemma split_ws_not_Nil [simp]: "split_ws s \<noteq> []"
  by (induction s) (auto split: list.split)

lemma split_ws_wsfree: "p \<in> set (split_ws s) \<Longrightarrow> c \<in> set p \<Longrightarrow> \<not> is_ws c"
proof (induction s arbitrary: p)
  case Nil
  then show ?case by simp
next
  case (Cons a s)
  show ?case
  proof (cases "is_ws a")
    case True
    then show ?thesis
      using Cons by auto
  next
    case False
    obtain q qs where q: "split_ws s = q # qs"
      by (cases "split_ws s") simp_all
    from Cons.prems False q have "p = a # q \<or> p \<in> set qs"
      by simp
    then show ?thesis
    proof
      assume "p = a # q"
      then show ?thesis
        using Cons.prems(2) False Cons.IH [of q] q by auto
    next
      assume "p \<in> set qs"
      then show ?thesis
        using Cons.IH [of p] Cons.prems(2) q by simp
    qed
  qed
qed

lemma split_ws_wsfree_id: "\<forall>c \<in> set t. \<not> is_ws c \<Longrightarrow> split_ws t = [t]"
  by (induction t) simp_all

lemma split_ws_append:
  "\<forall>c \<in> set t. \<not> is_ws c \<Longrightarrow> is_ws c \<Longrightarrow> split_ws (t @ c # rest) = t # split_ws rest"
  by (induction t) simp_all

lemma words_serialize:
  "\<forall>t \<in> set ts. valid_token t \<Longrightarrow> filter (\<lambda>p. p \<noteq> []) (split_ws (serialize ts)) = ts"
proof (induction ts rule: serialize.induct)
  case 1
  show ?case by simp
next
  case (2 t)
  then show ?case
    by (simp add: valid_token_def split_ws_wsfree_id)
next
  case (3 t u ts)
  have sp: "is_ws (CHR '' '')"
    by (simp add: is_ws_def)
  have "split_ws (serialize (t # u # ts)) = t # split_ws (serialize (u # ts))"
    using 3(2) split_ws_append [of t "CHR '' ''" "serialize (u # ts)"] sp
    by (simp add: valid_token_def)
  then show ?case
    using 3 by (simp add: valid_token_def)
qed

lemma keep_first_distinct: "distinct ts \<Longrightarrow> rev (remdups (rev ts)) = ts"
  by (simp add: distinct_remdups_id)

lemma tokens_serialize:
  "distinct ts \<Longrightarrow> \<forall>t \<in> set ts. valid_token t \<Longrightarrow> tokens (serialize ts) = ts"
  by (simp add: tokens_def words_serialize keep_first_distinct)

lemma distinct_tokens [simp]: "distinct (tokens s)"
  by (simp add: tokens_def)

lemma valid_tokens: "t \<in> set (tokens s) \<Longrightarrow> valid_token t"
  by (auto simp add: tokens_def valid_token_def dest: split_ws_wsfree)

lemma tokens_remove [simp]: "tokens (classList_remove tok cn) = removeAll tok (tokens cn)"
  unfolding classList_remove_def
  by (rule tokens_serialize) (auto simp add: distinct_removeAll valid_tokens)

lemma tokens_append:
  "valid_token tok \<Longrightarrow> tok \<notin> set (tokens cn) \<Longrightarrow>
     tokens (serialize (tokens cn @ [tok])) = tokens cn @ [tok]"
  by (rule tokens_serialize) (auto simp add: valid_tokens)

lemma tokens_toggle:
  "valid_token tok \<Longrightarrow>
     tokens (classList_toggle tok cn) =
       (if tok \<in> set (tokens cn) then removeAll tok (tokens cn) else tokens cn @ [tok])"
  using tokens_remove [of tok cn]
  by (simp add: classList_toggle_def classList_remove_def tokens_append)

lemma tokens_toggle_force:
  "valid_token tok \<Longrightarrow>
     tokens (classList_toggle_force tok force cn) =
       (if tok \<in> set (tokens cn) then (if force then tokens cn else removeAll tok (tokens cn))
        else (if force then tokens cn @ [tok] else tokens cn))"
  using tokens_remove [of tok cn]
  by (simp add: classList_toggle_force_def classList_remove_def tokens_append)

lemma valid_literals [simp]: "valid_token ''is-active''" "valid_token ''open''"
  by (simp_all add: valid_token_def is_ws_def)

lemma mem_toggle_force:
  "valid_token tok \<Longrightarrow>
     t \<in> set (tokens (classList_toggle_force tok force cn)) \<longleftrightarrow>
       (if t = tok then force else t \<in> set (tokens cn))"
  by (auto simp add: tokens_toggle_force)

lemma mem_toggle:
  "valid_token tok \<Longrightarrow>
     t \<in> set (tokens (classList_toggle tok cn)) \<longleftrightarrow>
       (if t = tok then tok \<notin> set (tokens cn) else t \<in> set (tokens cn))"
  by (auto simp add: tokens_toggle)

lemma same_class_marker [simp]:
  "\<not> same_class q ''theme-option'' ''is-active''" "\<not> same_class q ''theme-option'' ''open''"
  "\<not> same_class q ''theme-option'' ''theme-current''"
  by (auto simp add: same_class_def dest: map_eq_imp_length_eq)

lemma matches_toggle_force:
  "valid_token tok \<Longrightarrow> \<not> same_class q c tok \<Longrightarrow>
     class_matches q c (classList_toggle_force tok force cn) = class_matches q c cn"
  by (auto simp add: class_matches_def list_ex_iff tokens_toggle_force)

lemma matches_remove:
  "\<not> same_class q c tok \<Longrightarrow> class_matches q c (classList_remove tok cn) = class_matches q c cn"
  by (auto simp add: class_matches_def list_ex_iff)

subsection \<open>Elements\<close>

lemma body_at_less [simp]: "body_at w < length (elements w)"
  by (simp add: body_at_def elements_def)

lemma nth_body [simp]: "elements w ! body_at w = body w"
  by (simp add: body_at_def elements_def)

lemma update_element_fields [simp]:
  "localStorage (update_element i f w) = localStorage w"
  "quirks (update_element i f w) = quirks w"
  "window (update_element i f w) = window w"
  "listeners (update_element i f w) = listeners w"
  "hook_calls (update_element i f w) = hook_calls w"
  by (simp_all add: update_element_def Let_def)

lemma elements_update_element [simp]:
  "elements (update_element i f w) = (elements w)[i := f (elements w ! i)]"
proof -
  let ?es = "(elements w)[i := f (elements w ! i)]"
  have "body_at w < length ?es"
    by simp
  then have "take (body_at w) ?es @ ?es ! body_at w # drop (Suc (body_at w)) ?es = ?es"
    by (rule id_take_nth_drop [symmetric])
  then show ?thesis
    by (simp add: update_element_def Let_def elements_def [of "_\<lparr>preceding := _, body := _, following := _\<rparr>"])
qed

lemma body_at_update_element [simp]: "body_at (update_element i f w) = body_at w"
  by (simp add: update_element_def Let_def body_at_def elements_def)

lemma set_body_className_fields [simp]:
  "localStorage (set_body_className s w) = localStorage w"
  "quirks (set_body_className s w) = quirks w"
  "window (set_body_className s w) = window w"
  "listeners (set_body_className s w) = listeners w"
  "hook_calls (set_body_className s w) = hook_calls w"
  "body_at (set_body_className s w) = body_at w"
  "elements (set_body_className s w) = (elements w)[body_at w := (body w)\<lparr>className := s\<rparr>]"
  by (simp_all add: set_body_className_def body_at_def elements_def)

lemma update_classList_fields [simp]:
  "localStorage (update_classList i f w) = localStorage w"
  "quirks (update_classList i f w) = quirks w"
  "window (update_classList i f w) = window w"
  "listeners (update_classList i f w) = listeners w"
  "hook_calls (update_classList i f w) = hook_calls w"
  "body_at (update_classList i f w) = body_at w"
  "length (elements (update_classList i f w)) = length (elements w)"
  by (simp_all add: update_classList_def)

subsection \<open>applyTheme\<close>

text \<open>
  The loop of \<^verbatim>\<open>applyTheme\<close> touches each matched element once, so it is a map over the
  elements of the page as they are once the class of the body is written.
\<close>

lemma mark_active_fields [simp]:
  "localStorage (mark_active th i w) = localStorage w"
  "quirks (mark_active th i w) = quirks w"
  "window (mark_active th i w) = window w"
  "listeners (mark_active th i w) = listeners w"
  "hook_calls (mark_active th i w) = hook_calls w"
  "body_at (mark_active th i w) = body_at w"
  "elements (mark_active th i w) = (elements w)[i := activate th (elements w ! i)]"
  by (simp_all add: mark_active_def update_classList_def activate_def)

lemma fold_mark_active_fields [simp]:
  "localStorage (fold (mark_active th) is w) = localStorage w"
  "quirks (fold (mark_active th) is w) = quirks w"
  "window (fold (mark_active th) is w) = window w"
  "listeners (fold (mark_active th) is w) = listeners w"
  "hook_calls (fold (mark_active th) is w) = hook_calls w"
  "body_at (fold (mark_active th) is w) = body_at w"
  by (induction "is" arbitrary: w; simp)+

lemma elements_fold_mark_active:
  "elements (fold (mark_active th) is w) =
     fold (\<lambda>i xs. xs[i := activate th (xs ! i)]) is (elements w)"
  by (induction "is" arbitrary: w) simp_all

lemma fold_update_distinct:
  "distinct is \<Longrightarrow>
     fold (\<lambda>i xs. xs[i := g (xs ! i)]) is xs =
       map (\<lambda>j. if j \<in> set is then g (xs ! j) else xs ! j) [0..<length xs]"
proof (induction "is" arbitrary: xs)
  case Nil
  show ?case by (simp add: map_nth)
next
  case (Cons i "is")
  then have "i \<notin> set is" and d: "distinct is" by simp_all
  have "fold (\<lambda>i xs. xs[i := g (xs ! i)]) (i # is) xs =
          fold (\<lambda>i xs. xs[i := g (xs ! i)]) is (xs[i := g (xs ! i)])"
    by simp
  also have "\<dots> = map (\<lambda>j. if j \<in> set is then g (xs[i := g (xs ! i)] ! j) else xs[i := g (xs ! i)] ! j)
                      [0..<length xs]"
    using Cons.IH [OF d, of "xs[i := g (xs ! i)]"] by simp
  also have "\<dots> = map (\<lambda>j. if j \<in> set (i # is) then g (xs ! j) else xs ! j) [0..<length xs]"
  proof -
    have "(if j \<in> set is then g (xs[i := g (xs ! i)] ! j) else xs[i := g (xs ! i)] ! j) =
          (if j \<in> set (i # is) then g (xs ! j) else xs ! j)" if "j < length xs" for j
      using that \<open>i \<notin> set is\<close> by (cases "j = i") auto
    then show ?thesis
      by simp
  qed
  finally show ?case .
qed

lemma elements_applyTheme:
  "elements (applyTheme th w) = map (sync_option (quirks w) th) (with_body_class (ToString th) w)"
proof -
  let ?xs = "with_body_class (ToString th) w"
  let ?P = "\<lambda>e. class_matches (quirks w) ''theme-option'' (className e)"
  let ?is = "filter (\<lambda>i. ?P (?xs ! i)) [0..<length ?xs]"
  have "elements (applyTheme th w) =
          fold (\<lambda>i xs. xs[i := activate th (xs ! i)]) ?is ?xs"
    by (simp add: applyTheme_def Let_def querySelectorAll_class_def elements_fold_mark_active
        with_body_class_def)
  also have "\<dots> = map (\<lambda>j. if j \<in> set ?is then activate th (?xs ! j) else ?xs ! j)
                      [0..<length ?xs]"
    by (rule fold_update_distinct) simp
  also have "\<dots> = map (sync_option (quirks w) th) ?xs"
    by (rule nth_equalityI) (simp_all add: sync_option_def is_theme_option_def)
  finally show ?thesis .
qed

lemma applyTheme_fields [simp]:
  "localStorage (applyTheme th w) = localStorage w"
  "quirks (applyTheme th w) = quirks w"
  "window (applyTheme th w) = window w"
  "listeners (applyTheme th w) = listeners w"
  "hook_calls (applyTheme th w) = hook_calls w"
  "body_at (applyTheme th w) = body_at w"
  by (simp_all add: applyTheme_def Let_def)

lemma length_with_body_class [simp]: "length (with_body_class s w) = length (elements w)"
  by (simp add: with_body_class_def)

lemma nth_with_body_class:
  "with_body_class s w ! i = (if i = body_at w then (body w)\<lparr>className := s\<rparr> else elements w ! i)"
  by (simp add: with_body_class_def nth_list_update)

lemma length_applyTheme [simp]: "length (elements (applyTheme th w)) = length (elements w)"
  by (simp add: elements_applyTheme)

lemma body_className_eq: "body_className w = className (elements w ! body_at w)"
  by (simp add: body_className_def)

lemma body_className_applyTheme:
  "body_className (applyTheme th w) =
     (if class_matches (quirks w) ''theme-option'' (ToString th)
      then classList_toggle_force ''is-active'' (dataset_theme (body w) = th) (ToString th)
      else ToString th)"
  by (simp add: body_className_eq elements_applyTheme nth_with_body_class sync_option_def
      is_theme_option_def activate_def)

subsection \<open>setTheme and loadTheme\<close>

lemma try_catch_setItem:
  "try_catch (localStorage_setItem k v) w =
     (None, w\<lparr>localStorage := (case setItem (localStorage w) k v of Inl e \<Rightarrow> localStorage w | Inr s \<Rightarrow> s)\<rparr>)"
  by (simp add: try_catch_def localStorage_setItem_def split: sum.split)

lemma call_if_function_eq:
  "call_if_function h w =
     (None, w\<lparr>hook_calls := hook_calls w @ (if window w h = Function then [(h, body_className w)] else [])\<rparr>)"
  by (simp add: call_if_function_def)

lemma body_className_hook_calls [simp]: "body_className (w\<lparr>hook_calls := c\<rparr>) = body_className w"
  by (simp add: body_className_def)

lemma elements_other_fields [simp]:
  "elements (w\<lparr>hook_calls := c\<rparr>) = elements w"
  "elements (w\<lparr>localStorage := s\<rparr>) = elements w"
  "elements (w\<lparr>listeners := l\<rparr>) = elements w"
  "body_at (w\<lparr>hook_calls := c\<rparr>) = body_at w"
  "body_at (w\<lparr>localStorage := s\<rparr>) = body_at w"
  "body_at (w\<lparr>listeners := l\<rparr>) = body_at w"
  by (simp_all add: elements_def body_at_def)

lemma applyTheme_storage:
  "applyTheme th (w\<lparr>localStorage := s\<rparr>) = (applyTheme th w)\<lparr>localStorage := s\<rparr>"
proof -
  have m: "mark_active th i (v\<lparr>localStorage := s\<rparr>) = (mark_active th i v)\<lparr>localStorage := s\<rparr>" for i v
    by (simp add: mark_active_def update_classList_def update_element_def Let_def)
  have f: "fold (mark_active th) is (v\<lparr>localStorage := s\<rparr>) = (fold (mark_active th) is v)\<lparr>localStorage := s\<rparr>"
    for "is" v
    by (induction "is" arbitrary: v) (simp_all add: m)
  have b: "set_body_className c (w\<lparr>localStorage := s\<rparr>) = (set_body_className c w)\<lparr>localStorage := s\<rparr>"
    for c
    by (simp add: set_body_className_def)
  have q: "querySelectorAll_class c (v\<lparr>localStorage := s\<rparr>) = querySelectorAll_class c v" for c v
    by (simp add: querySelectorAll_class_def)
  show ?thesis
    by (simp add: applyTheme_def Let_def b q f)
qed

lemma setTheme_eq:
  "setTheme theme w =
     (None, (applyTheme theme w)
              \<lparr>localStorage := stored_after (ToString theme) (localStorage w),
               hook_calls := hook_calls w @ hooks_called (body_className (applyTheme theme w)) w\<rparr>)"
  by (simp add: setTheme_def try_catch_setItem effect_def call_if_function_eq stored_after_def
      hooks_called_def applyTheme_storage body_className_def)

lemma setTheme_fields [simp]:
  "fst (setTheme theme w) = None"
  "localStorage (snd (setTheme theme w)) = stored_after (ToString theme) (localStorage w)"
  "quirks (snd (setTheme theme w)) = quirks w"
  "body_at (snd (setTheme theme w)) = body_at w"
  "body_className (snd (setTheme theme w)) = body_className (applyTheme theme w)"
  "elements (snd (setTheme theme w)) = elements (applyTheme theme w)"
  "window (snd (setTheme theme w)) = window w"
  "listeners (snd (setTheme theme w)) = listeners w"
  "hook_calls (snd (setTheme theme w)) =
     hook_calls w @ hooks_called (body_className (applyTheme theme w)) w"
  by (simp_all add: setTheme_eq body_className_def)

lemma loadTheme_eq: "loadTheme w = (None, applyTheme (Some (saved_theme w)) w)"
  by (simp add: loadTheme_def)

subsection \<open>What the listeners keep\<close>

text \<open>
  No listener registers a listener or changes the number of elements, so the wiring of
  the page stays as the initialisation made it.
\<close>

lemma length_setTheme [simp]: "length (elements (snd (setTheme th w))) = length (elements w)"
  by simp

lemma dropdown_open_update_classList:
  "d < length (elements w) \<Longrightarrow>
     dropdown_open d (update_classList d f w) \<longleftrightarrow>
       ''open'' \<in> set (tokens (f (className (elements w ! d))))"
  by (simp add: dropdown_open_def update_classList_def classList_def)

lemma option_listener_eq:
  "listener_body (OptionClick d) (Element opt) w =
     (None, update_classList d (classList_remove ''open'')
              (snd (setTheme (dataset_theme (elements w ! opt)) w)))"
proof -
  obtain w' where "setTheme (dataset_theme (elements w ! opt)) w = (None, w')"
    using setTheme_fields(1) [of "dataset_theme (elements w ! opt)" w]
    by (cases "setTheme (dataset_theme (elements w ! opt)) w") simp
  then show ?thesis
    by (simp add: effect_def)
qed

lemma plain_listener_eqs:
  "listener_body (ToggleClick d) n w = (None, update_classList d (classList_toggle ''open'') w)"
  "listener_body (DocumentClick d) n w = (None, update_classList d (classList_remove ''open'') w)"
  "listener_body DropdownClick n w = (None, w)"
  "listener_body (OptionClick d) Document w = (Some TypeError, w)"
  by (simp_all add: effect_def)

lemmas listener_eqs = plain_listener_eqs option_listener_eq

declare listener_body.simps [simp del]

lemma listener_body_frame:
  "listeners (snd (listener_body l n w)) = listeners w \<and>
   length (elements (snd (listener_body l n w))) = length (elements w)"
proof (cases l)
  case (OptionClick d)
  then show ?thesis
    by (cases n) (simp_all add: listener_eqs)
qed (simp_all add: listener_eqs)

lemma length_listener_body [simp]:
  "length (elements (snd (listener_body l n w))) = length (elements w)"
  by (simp add: listener_body_frame)

lemma run_listeners_frame:
  "listeners (run_listeners ls n w) = listeners w \<and>
   length (elements (run_listeners ls n w)) = length (elements w)"
  by (induction ls arbitrary: w) (simp_all add: listener_body_frame)

lemma propagate_frame:
  "listeners (propagate ns w) = listeners w \<and>
   length (elements (propagate ns w)) = length (elements w)"
  by (induction ns arbitrary: w) (simp_all add: Let_def run_listeners_frame)

lemma wired_frame:
  "wired tg d opts w \<Longrightarrow> listeners w' = listeners w \<Longrightarrow>
     length (elements w') = length (elements w) \<Longrightarrow> wired tg d opts w'"
  by (simp add: wired_def)

lemma wired_click: "wired tg d opts w \<Longrightarrow> wired tg d opts (click path w)"
  by (rule wired_frame) (simp_all add: click_def propagate_frame)

lemma wired_clicks: "wired tg d opts w \<Longrightarrow> wired tg d opts (fold click history w)"
  by (induction history arbitrary: w) (simp_all add: wired_click)

lemma filter_eq_distinct:
  "distinct xs \<Longrightarrow> filter (\<lambda>x. x = i) xs = (if i \<in> set xs then [i] else [])"
  by (induction xs) auto

lemma option_listeners_on:
  "distinct opts \<Longrightarrow>
     filter (\<lambda>r. fst r = Element i) (map (\<lambda>opt. (Element opt, OptionClick d)) opts) =
       (if i \<in> set opts then [(Element i, OptionClick d)] else [])"
proof -
  assume d: "distinct opts"
  have "filter (\<lambda>r. fst r = Element i) (map (\<lambda>opt. (Element opt, OptionClick d)) opts) =
        map (\<lambda>opt. (Element opt, OptionClick d)) (filter (\<lambda>x. x = i) opts)"
    by (simp add: filter_map comp_def)
  also have "\<dots> = (if i \<in> set opts then [(Element i, OptionClick d)] else [])"
    by (simp add: filter_eq_distinct [OF d])
  finally show ?thesis .
qed

lemma listeners_on_element:
  assumes "wired tg d opts w"
  shows "listeners_on (Element i) w =
           (if i = tg then [ToggleClick d] else []) @
           (if i = d then [DropdownClick] else []) @
           (if i \<in> set opts then [OptionClick d] else [])"
proof -
  have l: "listeners w =
          [(Element tg, ToggleClick d), (Document, DocumentClick d), (Element d, DropdownClick)] @
          map (\<lambda>opt. (Element opt, OptionClick d)) opts"
    and dist: "distinct opts"
    using assms by (simp_all add: wired_def)
  show ?thesis
    unfolding listeners_on_def l by (simp add: option_listeners_on [OF dist])
qed

lemma listeners_on_document:
  assumes "wired tg d opts w"
  shows "listeners_on Document w = [DocumentClick d]"
  using assms by (simp add: listeners_on_def wired_def filter_map comp_def)

lemma option_listener_on_wired:
  assumes "wired tg d opts w"
  shows "option_listener_on w i \<longleftrightarrow> i \<in> set opts"
  using assms by (auto simp add: option_listener_on_def wired_def list_ex_iff)

subsection \<open>The dropdown after each listener and each click\<close>

lemma open_after_toggle:
  "d < length (elements w) \<Longrightarrow>
     dropdown_open d (snd (listener_body (ToggleClick d) n w)) = (\<not> dropdown_open d w)"
  by (simp add: listener_eqs dropdown_open_update_classList mem_toggle)
     (simp add: dropdown_open_def classList_def)

lemma open_after_document:
  "d < length (elements w) \<Longrightarrow> \<not> dropdown_open d (snd (listener_body (DocumentClick d) n w))"
  by (simp add: listener_eqs dropdown_open_update_classList)

lemma open_after_option:
  "d < length (elements w) \<Longrightarrow>
     \<not> dropdown_open d (snd (listener_body (OptionClick d) (Element opt) w))"
  by (simp add: listener_eqs dropdown_open_update_classList)

lemma visit_element:
  fixes i :: nat
  assumes "wired tg d opts w"
  defines "w' \<equiv> run_listeners (listeners_on (Element i) w) (Element i) w"
  shows "wired tg d opts w'"
    and "list_ex stops_propagation (listeners_on (Element i) w) \<longleftrightarrow> i = tg \<or> i = d"
    and "dropdown_open d w' =
           (let s1 = (if i = tg then spec_step ToggleEvent (dropdown_open d w) else dropdown_open d w)
            in if i \<in> set opts then spec_step OptionSelection s1 else s1)"
proof -
  show "wired tg d opts w'"
    using assms(1) by (rule wired_frame) (simp_all add: w'_def run_listeners_frame)
  show "list_ex stops_propagation (listeners_on (Element i) w) \<longleftrightarrow> i = tg \<or> i = d"
    by (simp add: listeners_on_element [OF assms(1)])
  have d: "d < length (elements w)" and ne: "tg \<noteq> d"
    using assms(1) by (simp_all add: wired_def)
  show "dropdown_open d w' =
           (let s1 = (if i = tg then spec_step ToggleEvent (dropdown_open d w) else dropdown_open d w)
            in if i \<in> set opts then spec_step OptionSelection s1 else s1)"
    using d ne
    by (simp add: w'_def listeners_on_element [OF assms(1)] open_after_toggle open_after_option
        plain_listener_eqs(3) Let_def)
qed

lemma visit_document:
  assumes "wired tg d opts w"
  shows "\<not> dropdown_open d (propagate [Document] w)"
  using assms
  by (simp add: listeners_on_document [OF assms] Let_def open_after_document wired_def)


lemma click_effect_opts:
  "wired tg d opts w \<Longrightarrow>
     dropdown_open d (click path w) = predicted tg d (\<lambda>i. i \<in> set opts) path (dropdown_open d w)"
  unfolding click_def
proof (induction path arbitrary: w)
  case Nil
  then show ?case
    using visit_document [of tg d opts w] by simp
next
  case (Cons i path)
  let ?w' = "run_listeners (listeners_on (Element i) w) (Element i) w"
  note v = visit_element [OF Cons.prems, of i]
  show ?case
  proof (cases "i = tg \<or> i = d")
    case True
    have "propagate (map Element (i # path) @ [Document]) w = ?w'"
      by (simp add: Let_def v(2) True)
    then show ?thesis
      by (simp add: v(3) True Let_def)
  next
    case False
    then have n: "i \<noteq> tg" "i \<noteq> d"
      by simp_all
    have "propagate (map Element (i # path) @ [Document]) w =
            propagate (map Element path @ [Document]) ?w'"
      by (simp add: Let_def v(2) n)
    then show ?thesis
      by (simp add: Cons.IH [OF v(1)] v(3) n Let_def)
  qed
qed

lemma click_effect:
  assumes "wired tg d opts w"
  shows "dropdown_open d (click path w) =
           predicted tg d (option_listener_on w) path (dropdown_open d w)"
proof -
  have "option_listener_on w = (\<lambda>i. i \<in> set opts)"
    by (rule ext) (rule option_listener_on_wired [OF assms])
  then show ?thesis
    using click_effect_opts [OF assms] by simp
qed

lemma predicted_classify_from:
  "classify_from tg d opt through path = Some ev \<Longrightarrow> tg \<noteq> d \<Longrightarrow>
     s = (if through then False else s0) \<Longrightarrow>
     predicted tg d opt path s = spec_step ev s0"
proof (induction path arbitrary: through s)
  case Nil
  then show ?case
    by (auto split: if_splits)
next
  case (Cons i path)
  show ?case
  proof (cases "i = tg \<or> i = d")
    case True
    then show ?thesis
      using Cons.prems by (auto simp add: Let_def split: if_splits)
  next
    case False
    then have n: "i \<noteq> tg" "i \<noteq> d"
      by simp_all
    have c: "classify_from tg d opt (through \<or> opt i) path = Some ev"
      using Cons.prems(1) n by simp
    have e: "(if opt i then False else s) = (if through \<or> opt i then False else s0)"
      using Cons.prems(3) by simp
    have "predicted tg d opt path (if opt i then False else s) = spec_step ev s0"
      by (rule Cons.IH [OF c Cons.prems(2) e])
    then show ?thesis
      using n by (cases "opt i") (simp_all add: Let_def)
  qed
qed

lemma classify_from_eq:
  "classify_from tg d (option_listener_on w) through path =
     (let outside = (\<lambda>i. i \<noteq> tg \<and> i \<noteq> d);
          through_option = (through \<or> list_ex (option_listener_on w) (takeWhile outside path))
      in case dropWhile outside path of
           [] \<Rightarrow> Some (if through_option then OptionSelection else OutsideClick)
         | s # up \<Rightarrow>
             if s = d
             then Some (if through_option \<or> option_listener_on w d then OptionSelection else InsideClick)
             else if through_option \<or> option_listener_on w tg then None
             else Some ToggleEvent)"
  by (induction path arbitrary: through) (simp_all add: Let_def)

lemma classify_eq: "classify tg d w path = classify_from tg d (option_listener_on w) False path"
  by (simp add: classify_def classify_from_eq)

lemma classify_step:
  assumes "wired tg d opts w" and "classify tg d w path = Some ev"
  shows "dropdown_open d (click path w) = spec_step ev (dropdown_open d w)"
proof -
  have ne: "tg \<noteq> d"
    using assms(1) by (simp add: wired_def)
  have c: "classify_from tg d (option_listener_on w) False path = Some ev"
    using assms(2) by (simp add: classify_eq)
  show ?thesis
    unfolding click_effect [OF assms(1)]
    by (rule predicted_classify_from [OF c ne]) simp
qed

subsection \<open>Initialisation\<close>

lemma nth_update_same:
  "f (g (xs ! k)) = f (xs ! k) \<Longrightarrow> f (xs[k := g (xs ! k)] ! j) = f (xs ! j)"
  by (cases "k < length xs"; cases "j = k"; simp add: list_update_beyond)

lemma getElementById_Some:
  "getElementById i w = Some k \<Longrightarrow> k < length (elements w) \<and> elem_id (elements w ! k) = i"
  by (auto simp add: getElementById_def find_Some_iff)

lemma getElementById_cong:
  assumes "map elem_id (elements w') = map elem_id (elements w)"
  shows "getElementById i w' = getElementById i w"
proof -
  have len: "length (elements w') = length (elements w)"
    using assms by (metis length_map)
  have "elem_id (elements w' ! k) = elem_id (elements w ! k)" if "k < length (elements w)" for k
    using that assms len by (metis nth_map)
  then show ?thesis
    unfolding getElementById_def len by (intro find_cong) simp_all
qed

lemma sync_option_keeps [simp]:
  "elem_id (sync_option q th e) = elem_id e"
  "dataset_theme (sync_option q th e) = dataset_theme e"
  "textContent (sync_option q th e) = textContent e"
  "is_theme_option q (sync_option q th e) = is_theme_option q e"
  "t \<noteq> ''is-active'' \<Longrightarrow> t \<in> set (classList (sync_option q th e)) \<longleftrightarrow> t \<in> set (classList e)"
  "is_theme_option q e \<Longrightarrow> is_active (sync_option q th e) \<longleftrightarrow> dataset_theme e = th"
  by (simp_all add: sync_option_def activate_def is_theme_option_def is_active_def classList_def
      matches_toggle_force mem_toggle_force)

lemma ids_applyTheme: "map elem_id (elements (applyTheme th w)) = map elem_id (elements w)"
  by (rule nth_equalityI) (simp_all add: elements_applyTheme nth_with_body_class)

lemma getElementById_applyTheme [simp]: "getElementById i (applyTheme th w) = getElementById i w"
  by (rule getElementById_cong) (rule ids_applyTheme)


lemma addEventListener_fields [simp]:
  "localStorage (addEventListener n l w) = localStorage w"
  "quirks (addEventListener n l w) = quirks w"
  "elements (addEventListener n l w) = elements w"
  "body_at (addEventListener n l w) = body_at w"
  "window (addEventListener n l w) = window w"
  "hook_calls (addEventListener n l w) = hook_calls w"
  "listeners (addEventListener n l w) = listeners w @ [(n, l)]"
  by (simp_all add: addEventListener_def)

lemma fold_add_fields:
  "localStorage (fold (\<lambda>opt. addEventListener (Element opt) l) qs w) = localStorage w \<and>
   quirks (fold (\<lambda>opt. addEventListener (Element opt) l) qs w) = quirks w \<and>
   elements (fold (\<lambda>opt. addEventListener (Element opt) l) qs w) = elements w \<and>
   body_at (fold (\<lambda>opt. addEventListener (Element opt) l) qs w) = body_at w \<and>
   window (fold (\<lambda>opt. addEventListener (Element opt) l) qs w) = window w \<and>
   hook_calls (fold (\<lambda>opt. addEventListener (Element opt) l) qs w) = hook_calls w \<and>
   listeners (fold (\<lambda>opt. addEventListener (Element opt) l) qs w) =
     listeners w @ map (\<lambda>opt. (Element opt, l)) qs"
  by (induction qs arbitrary: w) simp_all

lemma wire_options_fields [simp]:
  "fst (wire_options d w) = None"
  "localStorage (snd (wire_options d w)) = localStorage w"
  "quirks (snd (wire_options d w)) = quirks w"
  "elements (snd (wire_options d w)) = elements w"
  "body_at (snd (wire_options d w)) = body_at w"
  "window (snd (wire_options d w)) = window w"
  "hook_calls (snd (wire_options d w)) = hook_calls w"
  "listeners (snd (wire_options d w)) =
     listeners w @
     map (\<lambda>opt. (Element opt, OptionClick d)) (querySelectorAll_class ''theme-option'' w)"
  by (simp_all add: wire_options_def fold_add_fields)

lemma set_year_fields [simp]:
  "fst (set_year y w) = None"
  "localStorage (snd (set_year y w)) = localStorage w"
  "quirks (snd (set_year y w)) = quirks w"
  "body_at (snd (set_year y w)) = body_at w"
  "window (snd (set_year y w)) = window w"
  "hook_calls (snd (set_year y w)) = hook_calls w"
  "listeners (snd (set_year y w)) = listeners w"
  "length (elements (snd (set_year y w))) = length (elements w)"
  by (simp_all add: set_year_def split: option.split)

lemma className_set_year [simp]:
  "className (elements (snd (set_year y w)) ! j) = className (elements w ! j)"
  by (simp add: set_year_def nth_update_same split: option.split)

lemma dropdown_open_set_year [simp]: "dropdown_open d (snd (set_year y w)) = dropdown_open d w"
  by (simp add: dropdown_open_def classList_def)

lemma query_cong:
  "quirks w' = quirks w \<Longrightarrow> elements w' = elements w \<Longrightarrow>
     querySelectorAll_class c w' = querySelectorAll_class c w"
  by (simp add: querySelectorAll_class_def)

lemma distinct_query [simp]: "distinct (querySelectorAll_class c w)"
  by (simp add: querySelectorAll_class_def)

lemma wiring_eq:
  "block [
     effect (addEventListener (Element tg) (ToggleClick d)),
     effect (addEventListener Document (DocumentClick d)),
     effect (addEventListener (Element d) DropdownClick),
     wire_options d,
     set_year y] w =
   set_year y (snd (wire_options d
     (addEventListener (Element d) DropdownClick
       (addEventListener Document (DocumentClick d)
         (addEventListener (Element tg) (ToggleClick d) w)))))"
  by (simp add: effect_def split: prod.split option.split)
     (metis wire_options_fields(1) fst_conv option.distinct(1) snd_conv)

lemma init_found:
  assumes "getElementById ''themeToggle'' w = Some tg"
    and "getElementById ''themeDropdown'' w = Some d"
  shows "fst (init y w) = None"
    and "listeners (snd (init y w)) =
           listeners w @
           [(Element tg, ToggleClick d), (Document, DocumentClick d), (Element d, DropdownClick)] @
           map (\<lambda>opt. (Element opt, OptionClick d))
             (querySelectorAll_class ''theme-option'' (snd (loadTheme w)))"
    and "length (elements (snd (init y w))) = length (elements w)"
    and "dropdown_open d (snd (init y w)) = dropdown_open d (snd (loadTheme w))"
proof -
  define w1 where "w1 = applyTheme (Some (saved_theme w)) w"
  define w4 where
    "w4 = addEventListener (Element d) DropdownClick
            (addEventListener Document (DocumentClick d)
              (addEventListener (Element tg) (ToggleClick d) w1))"
  have load: "loadTheme w = (None, w1)"
    by (simp add: loadTheme_eq w1_def)
  have found: "getElementById ''themeToggle'' w1 = Some tg" "getElementById ''themeDropdown'' w1 = Some d"
    using assms by (simp_all add: w1_def)
  have eq: "init y w = set_year y (snd (wire_options d w4))"
    by (simp add: init_def load found wiring_eq w4_def del: block.simps)
  have q: "querySelectorAll_class ''theme-option'' w4 = querySelectorAll_class ''theme-option'' w1"
    by (rule query_cong) (simp_all add: w4_def)
  show "fst (init y w) = None"
    by (simp add: eq)
  show "listeners (snd (init y w)) =
           listeners w @
           [(Element tg, ToggleClick d), (Document, DocumentClick d), (Element d, DropdownClick)] @
           map (\<lambda>opt. (Element opt, OptionClick d))
             (querySelectorAll_class ''theme-option'' (snd (loadTheme w)))"
    by (simp add: eq q load) (simp add: w4_def w1_def)
  show "length (elements (snd (init y w))) = length (elements w)"
    by (simp add: eq) (simp add: w4_def w1_def)
  show "dropdown_open d (snd (init y w)) = dropdown_open d (snd (loadTheme w))"
    by (simp add: eq load) (simp add: dropdown_open_def w4_def)
qed

lemma init_not_found:
  "getElementById ''themeToggle'' w = None \<or> getElementById ''themeDropdown'' w = None \<Longrightarrow>
     init y w = loadTheme w"
  by (auto simp add: init_def loadTheme_eq split: option.split)

lemma init_wired:
  assumes "getElementById ''themeToggle'' w = Some tg"
    and "getElementById ''themeDropdown'' w = Some d"
    and "listeners w = []"
  shows "wired tg d (querySelectorAll_class ''theme-option'' (snd (loadTheme w))) (snd (init y w))"
proof -
  note i = init_found [OF assms(1,2), of y]
  have t: "elem_id (elements w ! tg) = ''themeToggle''"
    and d: "d < length (elements w)" "elem_id (elements w ! d) = ''themeDropdown''"
    using assms(1,2) by (simp_all add: getElementById_Some)
  have ne: "tg \<noteq> d"
    using t d(2) by auto
  show ?thesis
    unfolding wired_def by (simp add: i(2) i(3) assms(3) ne d(1))
qed

lemma loaded_wired:
  assumes "getElementById ''themeToggle'' page = Some tg"
    and "getElementById ''themeDropdown'' page = Some d"
    and "listeners page = []"
  shows "wired tg d (querySelectorAll_class ''theme-option'' (snd (loadTheme page)))
           (loaded year page history)"
  unfolding loaded_def using init_wired [OF assms] by (rule wired_clicks)


subsection \<open>The options after applyTheme\<close>

lemma tokens_single: "valid_token t \<Longrightarrow> tokens t = [t]"
  using tokens_serialize [of "[t]"] by simp

lemma default_not_marker [simp]: "\<not> class_matches q ''theme-option'' ''theme-current''"
proof -
  have "valid_token ''theme-current''"
    by (simp add: valid_token_def is_ws_def)
  then show ?thesis
    by (simp add: class_matches_def tokens_single)
qed

lemma marks_applyTheme:
  assumes "i < length (elements w)"
  shows "dataset_theme (elements (applyTheme th w) ! i) = dataset_theme (elements w ! i)"
    and "i \<noteq> body_at w \<Longrightarrow>
           is_theme_option (quirks w) (elements (applyTheme th w) ! i) =
           is_theme_option (quirks w) (elements w ! i)"
    and "is_theme_option (quirks w) (elements (applyTheme th w) ! i) \<Longrightarrow>
           is_active (elements (applyTheme th w) ! i) \<longleftrightarrow> dataset_theme (elements w ! i) = th"
  using assms by (simp_all add: elements_applyTheme nth_with_body_class)

lemma remove_open_keeps [simp]:
  "is_theme_option q (e\<lparr>className := classList_remove ''open'' (className e)\<rparr>) = is_theme_option q e"
  "is_active (e\<lparr>className := classList_remove ''open'' (className e)\<rparr>) = is_active e"
  by (simp_all add: is_theme_option_def is_active_def classList_def matches_remove)


subsection \<open>Clicks that are two events at once\<close>



section \<open>The claims\<close>

subsection \<open>Selecting a theme\<close>




subsection \<open>Failing storage\<close>

text \<open>
  Claim C2. If the write of \<^verbatim>\<open>setTheme\<close> throws, \<^verbatim>\<open>setTheme\<close> still completes normally,
  with the theme applied as \<^verbatim>\<open>applyTheme\<close> applies it and the store as it was. If the read
  of \<^verbatim>\<open>loadTheme\<close> throws, \<^verbatim>\<open>loadTheme\<close> still completes normally and the page is the one
  \<^verbatim>\<open>applyTheme\<close> makes for the default theme.
\<close>

theorem storage_failure_swallowed:
  "(setItem (localStorage w) STORAGE_KEY (ToString theme) = Inl e \<longrightarrow>
      fst (setTheme theme w) = None \<and>
      body_className (snd (setTheme theme w)) = body_className (applyTheme theme w) \<and>
      elements (snd (setTheme theme w)) = elements (applyTheme theme w) \<and>
      localStorage (snd (setTheme theme w)) = localStorage w) \<and>
   (getItem (localStorage w) STORAGE_KEY = Inl e \<longrightarrow>
      fst (loadTheme w) = None \<and>
      snd (loadTheme w) = applyTheme (Some DEFAULT) w)"
  by (simp add: stored_after_def loadTheme_eq saved_theme_def)

theorem storage_failure_swallowed_witness:
  "setItem (localStorage private_page) STORAGE_KEY (ToString (Some ''theme-dark'')) = Inl SecurityError \<and>
   getItem (localStorage private_page) STORAGE_KEY = Inl SecurityError \<and>
   fst (setTheme (Some ''theme-dark'') private_page) = None \<and>
   body_className (snd (setTheme (Some ''theme-dark'') private_page)) = ''theme-dark'' \<and>
   items (localStorage (snd (setTheme (Some ''theme-dark'') private_page))) STORAGE_KEY = None \<and>
   fst (loadTheme private_page) = None \<and>
   body_className (snd (loadTheme private_page)) = ''theme-current''"
proof -
  have s: "setItem (localStorage private_page) STORAGE_KEY (ToString (Some ''theme-dark'')) = Inl SecurityError"
    and g: "getItem (localStorage private_page) STORAGE_KEY = Inl SecurityError"
    by (simp_all add: private_page_def setItem_def getItem_def empty_storage_def)
  have none: "items (localStorage private_page) STORAGE_KEY = None"
    by (simp add: private_page_def empty_storage_def)
  have dark: "body_className (applyTheme (Some ''theme-dark'') private_page) = ''theme-dark''"
    and cur: "body_className (applyTheme (Some DEFAULT) private_page) = ''theme-current''"
    by code_simp+
  show ?thesis
    using storage_failure_swallowed [of private_page "Some ''theme-dark''" SecurityError]
      s g none dark cur
    by simp
qed

subsection \<open>applyTheme\<close>

text \<open>
  Claim C3, as amended. For every theme identifier \<open>t\<close> that the selector
  \<^verbatim>\<open>.theme-option\<close> does not match, the class of the body after \<^verbatim>\<open>applyTheme(t)\<close> is exactly
  \<open>t\<close>, whatever it was before; when \<open>t\<close> itself carries that token, the body is one of
  the elements the loop visits and its class is \<open>t\<close> with \<^verbatim>\<open>is-active\<close> added or removed.
  For every \<open>t\<close>, an element other than the body is a theme option afterwards exactly
  when it was one before, and every element that is a theme option afterwards is
  marked active if and only if its data identifier equals \<open>t\<close>.
\<close>

theorem applyTheme_sets_class_and_active:
  "body_className (applyTheme (Some t) w) =
     (if class_matches (quirks w) ''theme-option'' t
      then classList_toggle_force ''is-active'' (dataset_theme (body w) = Some t) t
      else t) \<and>
   length (elements (applyTheme (Some t) w)) = length (elements w) \<and>
   (\<forall>i < length (elements w).
      (i \<noteq> body_at w \<longrightarrow>
         is_theme_option (quirks w) (elements (applyTheme (Some t) w) ! i) =
         is_theme_option (quirks w) (elements w ! i)) \<and>
      (is_theme_option (quirks w) (elements (applyTheme (Some t) w) ! i) \<longrightarrow>
         (is_active (elements (applyTheme (Some t) w) ! i) \<longleftrightarrow>
            dataset_theme (elements w ! i) = Some t)))"
  using marks_applyTheme [of _ w "Some t"]
  by (simp add: body_className_applyTheme ToString_def)

theorem applyTheme_sets_class_and_active_witness:
  "body_className portal_page = ''theme-old extra'' \<and>
   body_className (applyTheme (Some ''theme-dark'') portal_page) = ''theme-dark'' \<and>
   is_active (elements portal_page ! 4) \<and>
   \<not> is_active (elements (applyTheme (Some ''theme-dark'') portal_page) ! 4) \<and>
   \<not> is_active (elements portal_page ! 5) \<and>
   is_active (elements (applyTheme (Some ''theme-dark'') portal_page) ! 5)"
proof -
  let ?w' = "applyTheme (Some ''theme-dark'') portal_page"
  have before: "body_className portal_page = ''theme-old extra''"
    "is_active (elements portal_page ! 4)" "\<not> is_active (elements portal_page ! 5)"
    by code_simp+
  have m: "\<not> class_matches (quirks portal_page) ''theme-option'' ''theme-dark''"
    by code_simp
  have opts: "4 < length (elements portal_page)" "5 < length (elements portal_page)"
    "is_theme_option (quirks portal_page) (elements ?w' ! 4)"
    "is_theme_option (quirks portal_page) (elements ?w' ! 5)"
    "dataset_theme (elements portal_page ! 4) \<noteq> Some ''theme-dark''"
    "dataset_theme (elements portal_page ! 5) = Some ''theme-dark''"
    by code_simp+
  note main = applyTheme_sets_class_and_active [of "''theme-dark''" portal_page]
  from main m have body: "body_className ?w' = ''theme-dark''"
    by simp
  from main have marks: "\<forall>i < length (elements portal_page).
      is_theme_option (quirks portal_page) (elements ?w' ! i) \<longrightarrow>
        (is_active (elements ?w' ! i) \<longleftrightarrow> dataset_theme (elements portal_page ! i) = Some ''theme-dark'')"
    by blast
  have "is_active (elements ?w' ! 5)"
    using marks opts(2,4,6) by blast
  moreover have "\<not> is_active (elements ?w' ! 4)"
    using marks opts(1,3,5) by blast
  ultimately show ?thesis
    using before body by blast
qed

text \<open>
  The claim as stated has the body class equal \<open>t\<close> for every \<open>t\<close>. With
  \<^verbatim>\<open>data-theme="theme-option"\<close> on the body and \<open>t\<close> the identifier \<^verbatim>\<open>theme-option\<close>, the body
  ends with the class \<^verbatim>\<open>theme-option is-active\<close>; and with \<open>t\<close> the string
  \<^verbatim>\<open>theme-option is-active\<close> on the portal page it ends with the class \<^verbatim>\<open>theme-option\<close>.
\<close>

theorem applyTheme_body_class_counterexample:
  "dataset_theme (body marked_body_page) = Some ''theme-option'' \<and>
   body_className (applyTheme (Some ''theme-option'') marked_body_page) = ''theme-option is-active'' \<and>
   body_className (applyTheme (Some ''theme-option'') marked_body_page) \<noteq> ''theme-option'' \<and>
   body_className (applyTheme (Some ''theme-option is-active'') portal_page) = ''theme-option''"
  by code_simp

subsection \<open>loadTheme\<close>

text \<open>
  Claim C4. When the read of the stored theme fails or finds no value under the fixed
  key, \<^verbatim>\<open>loadTheme\<close> applies the default identifier \<^verbatim>\<open>theme-current\<close>: the class of the body
  is \<^verbatim>\<open>theme-current\<close> after loading.
\<close>

theorem loadTheme_default:
  "getItem (localStorage w) STORAGE_KEY = Inl e \<or> getItem (localStorage w) STORAGE_KEY = Inr None \<Longrightarrow>
     fst (loadTheme w) = None \<and>
     snd (loadTheme w) = applyTheme (Some ''theme-current'') w \<and>
     body_className (snd (loadTheme w)) = ''theme-current''"
  by (auto simp add: loadTheme_eq saved_theme_def or_default_def DEFAULT_def ToString_def
      body_className_applyTheme)

theorem loadTheme_default_witness:
  "getItem (localStorage portal_page) STORAGE_KEY = Inr None \<and>
   body_className portal_page = ''theme-old extra'' \<and>
   body_className (snd (loadTheme portal_page)) = ''theme-current''"
proof -
  have h: "getItem (localStorage portal_page) STORAGE_KEY = Inr None"
    by (simp add: portal_page_def getItem_def empty_storage_def)
  have b: "body_className portal_page = ''theme-old extra''"
    by code_simp
  show ?thesis
    using loadTheme_default [OF disjI2, OF h] h b by blast
qed

text \<open>
  Claim C9. When the value stored under the fixed key is the empty string, \<^verbatim>\<open>loadTheme\<close>
  applies the default identifier \<^verbatim>\<open>theme-current\<close>, not the empty string.
\<close>

theorem loadTheme_empty_string:
  "getItem (localStorage w) STORAGE_KEY = Inr (Some []) \<Longrightarrow>
     snd (loadTheme w) = applyTheme (Some ''theme-current'') w \<and>
     body_className (snd (loadTheme w)) = ''theme-current''"
  by (simp add: loadTheme_eq saved_theme_def or_default_def DEFAULT_def ToString_def
      body_className_applyTheme)

theorem loadTheme_empty_string_witness:
  "getItem (localStorage blank_page) STORAGE_KEY = Inr (Some []) \<and>
   body_className (snd (loadTheme blank_page)) = ''theme-current'' \<and>
   body_className (snd (loadTheme blank_page)) \<noteq> []"
proof -
  have h: "getItem (localStorage blank_page) STORAGE_KEY = Inr (Some [])"
    by (simp add: blank_page_def getItem_def empty_storage_def)
  from loadTheme_empty_string [OF h]
  have b: "body_className (snd (loadTheme blank_page)) = ''theme-current''"
    by blast
  show ?thesis
    using h b by simp
qed

text \<open>
  Claim C10. \<^verbatim>\<open>loadTheme\<close> never writes to the store: the storage after it is the storage
  before it. In particular, when nothing is stored under the fixed key, nothing is
  stored there afterwards, while the body carries the default identifier.
\<close>

theorem loadTheme_keeps_storage:
  "localStorage (snd (loadTheme w)) = localStorage w \<and>
   (items (localStorage w) STORAGE_KEY = None \<longrightarrow>
      items (localStorage (snd (loadTheme w))) STORAGE_KEY = None \<and>
      body_className (snd (loadTheme w)) = DEFAULT)"
  by (auto simp add: loadTheme_eq saved_theme_def getItem_def or_default_def ToString_def
      body_className_applyTheme DEFAULT_def)

theorem loadTheme_keeps_storage_witness:
  "items (localStorage portal_page) STORAGE_KEY = None \<and>
   items (localStorage (snd (loadTheme portal_page))) STORAGE_KEY = None \<and>
   body_className (snd (loadTheme portal_page)) = ''theme-current''"
proof -
  have h: "items (localStorage portal_page) STORAGE_KEY = None"
    by (simp add: portal_page_def empty_storage_def)
  show ?thesis
    using loadTheme_keeps_storage [of portal_page] h by (simp add: DEFAULT_def)
qed

subsection \<open>The optional hooks\<close>

text \<open>
  Claim C7. For every theme identifier \<open>t\<close>, \<^verbatim>\<open>setTheme(t)\<close> applies the theme and then calls,
  in the order map recolor, panel update, badge update, exactly those of the three
  hooks that the global scope holds as functions; each call finds the page as
  \<^verbatim>\<open>applyTheme(t)\<close> left it, with the body class \<open>t\<close> in place when the selector
  \<^verbatim>\<open>.theme-option\<close> does not match \<open>t\<close>, and a hook that is absent or not a function is not
  called.
\<close>

theorem setTheme_calls_hooks:
  "body_className (snd (setTheme (Some t) w)) = body_className (applyTheme (Some t) w) \<and>
   elements (snd (setTheme (Some t) w)) = elements (applyTheme (Some t) w) \<and>
   hook_calls (snd (setTheme (Some t) w)) =
     hook_calls w @
     map (\<lambda>h. (h, body_className (applyTheme (Some t) w)))
       (filter (\<lambda>h. window w h = Function) [RecolorMap, UpdatePanel, UpdateAbbrBadge]) \<and>
   (\<not> class_matches (quirks w) ''theme-option'' t \<longrightarrow>
      body_className (applyTheme (Some t) w) = t)"
  by (simp add: hooks_called_def ToString_def body_className_applyTheme)

theorem setTheme_calls_hooks_witness:
  "window portal_page RecolorMap = Function \<and>
   window portal_page UpdatePanel = NonFunction \<and>
   window portal_page UpdateAbbrBadge = Function \<and>
   hook_calls (snd (setTheme (Some ''theme-dark'') portal_page)) =
     [(RecolorMap, ''theme-dark''), (UpdateAbbrBadge, ''theme-dark'')] \<and>
   hook_calls (snd (setTheme (Some ''theme-dark'') footer_page)) = []"
proof -
  have m: "\<not> class_matches (quirks portal_page) ''theme-option'' ''theme-dark''"
    by code_simp
  note main = setTheme_calls_hooks [of "''theme-dark''" portal_page]
  from main m have b: "body_className (applyTheme (Some ''theme-dark'') portal_page) = ''theme-dark''"
    by blast
  have "hook_calls (snd (setTheme (Some ''theme-dark'') portal_page)) =
          hook_calls portal_page @
          map (\<lambda>h. (h, body_className (applyTheme (Some ''theme-dark'') portal_page)))
            (filter (\<lambda>h. window portal_page h = Function) [RecolorMap, UpdatePanel, UpdateAbbrBadge])"
    using main by blast
  also have "\<dots> = [(RecolorMap, ''theme-dark''), (UpdateAbbrBadge, ''theme-dark'')]"
    unfolding b by (simp add: portal_page_def)
  finally have portal: "hook_calls (snd (setTheme (Some ''theme-dark'') portal_page)) =
          [(RecolorMap, ''theme-dark''), (UpdateAbbrBadge, ''theme-dark'')]" .
  have "hook_calls (snd (setTheme (Some ''theme-dark'') footer_page)) =
          hook_calls footer_page @
          map (\<lambda>h. (h, body_className (applyTheme (Some ''theme-dark'') footer_page)))
            (filter (\<lambda>h. window footer_page h = Function) [RecolorMap, UpdatePanel, UpdateAbbrBadge])"
    using setTheme_calls_hooks [of "''theme-dark''" footer_page] by blast
  also have "\<dots> = []"
    by (simp add: footer_page_def)
  finally have footer: "hook_calls (snd (setTheme (Some ''theme-dark'') footer_page)) = []" .
  have "window portal_page RecolorMap = Function"
    and "window portal_page UpdatePanel = NonFunction"
    and "window portal_page UpdateAbbrBadge = Function"
    by (simp_all add: portal_page_def)
  then show ?thesis
    using portal footer by blast
qed

subsection \<open>The dropdown\<close>




text \<open>
  Claim C6. From either state of the dropdown, the toggle listener run twice gives the
  state back; and on a loaded page two toggle-clicks in succession give the state back.
\<close>

theorem toggle_twice:
  "dropdown_open d (snd (listener_body (ToggleClick d) n (snd (listener_body (ToggleClick d) n w))))
     = dropdown_open d w \<and>
   (getElementById ''themeToggle'' page = Some tg \<and>
    getElementById ''themeDropdown'' page = Some d \<and>
    listeners page = [] \<and>
    w = loaded year page history \<and>
    classify tg d w first = Some ToggleEvent \<and>
    classify tg d (click first w) second = Some ToggleEvent \<longrightarrow>
      dropdown_open d (click second (click first w)) = dropdown_open d w)"
proof -
  have handler: "dropdown_open d (snd (listener_body (ToggleClick d) n (snd (listener_body (ToggleClick d) n w))))
     = dropdown_open d w"
  proof (cases "d < length (elements w)")
    case True
    then show ?thesis
      by (simp add: open_after_toggle)
  next
    case False
    then show ?thesis
      by (simp add: listener_eqs update_classList_def dropdown_open_def list_update_beyond)
  qed
  have clicks: "dropdown_open d (click second (click first w)) = dropdown_open d w"
    if "getElementById ''themeToggle'' page = Some tg"
      and "getElementById ''themeDropdown'' page = Some d"
      and "listeners page = []"
      and "w = loaded year page history"
      and "classify tg d w first = Some ToggleEvent"
      and "classify tg d (click first w) second = Some ToggleEvent"
  proof -
    have w: "wired tg d (querySelectorAll_class ''theme-option'' (snd (loadTheme page))) w"
      unfolding that(4) using that(1-3) by (rule loaded_wired)
    then have w1: "wired tg d (querySelectorAll_class ''theme-option'' (snd (loadTheme page)))
                     (click first w)"
      by (rule wired_click)
    show ?thesis
      by (simp add: classify_step [OF w1 that(6)] classify_step [OF w that(5)])
  qed
  show ?thesis
    using handler clicks by blast
qed

theorem toggle_twice_witness:
  "\<not> dropdown_open 3 (loaded 2026 portal_page []) \<and>
   dropdown_open 3 (click [2, 1, 0] (loaded 2026 portal_page [])) \<and>
   \<not> dropdown_open 3 (click [2, 1, 0] (click [2, 1, 0] (loaded 2026 portal_page []))) \<and>
   dropdown_open 3 (loaded 2026 portal_page [[2, 1, 0]]) \<and>
   dropdown_open 3 (click [2, 1, 0] (click [2, 1, 0] (loaded 2026 portal_page [[2, 1, 0]])))"
proof -
  let ?w0 = "loaded 2026 portal_page []"
  let ?w1 = "loaded 2026 portal_page [[2, 1, 0]]"
  have t: "getElementById ''themeToggle'' portal_page = Some 2"
    and d: "getElementById ''themeDropdown'' portal_page = Some 3"
    and l: "listeners portal_page = []"
    by code_simp+
  have k0: "classify 2 3 ?w0 [2, 1, 0] = Some ToggleEvent"
    and k0': "classify 2 3 (click [2, 1, 0] ?w0) [2, 1, 0] = Some ToggleEvent"
    and k1: "classify 2 3 ?w1 [2, 1, 0] = Some ToggleEvent"
    and k1': "classify 2 3 (click [2, 1, 0] ?w1) [2, 1, 0] = Some ToggleEvent"
    by code_simp+
  have s: "\<not> dropdown_open 3 ?w0" "dropdown_open 3 (click [2, 1, 0] ?w0)" "dropdown_open 3 ?w1"
    by code_simp+
  show ?thesis
    using toggle_twice [of 3 "Element 2" ?w0 portal_page 2 2026 "[]" "[2, 1, 0]" "[2, 1, 0]"]
      toggle_twice [of 3 "Element 2" ?w1 portal_page 2 2026 "[[2, 1, 0]]" "[2, 1, 0]" "[2, 1, 0]"]
      t d l k0 k0' k1 k1' s
    by simp
qed

subsection \<open>Initialisation without the dropdown\<close>

text \<open>
  Claim C8 says that a page without the toggle or the dropdown still gets its theme and,
  if it has a year element, the current year. The handler returns at line 52, before
  the year is written: on the footer page the toggle is absent and the year element is
  there, the theme is applied, and the text of the year element stays empty. On the
  portal page, where both are present, the same handler writes the year. In general the
  handler does no more than \<^verbatim>\<open>loadTheme\<close> when either element is absent
  (\<open>init_not_found\<close>).
\<close>

theorem init_returns_before_year:
  "getElementById ''themeToggle'' footer_page = None \<and>
   getElementById ''year'' footer_page = Some 2 \<and>
   fst (init 2026 footer_page) = None \<and>
   body_className (snd (init 2026 footer_page)) = ''theme-current'' \<and>
   textContent (elements (snd (init 2026 footer_page)) ! 2) = [] \<and>
   getElementById ''year'' portal_page = Some 6 \<and>
   textContent (elements (snd (init 2026 portal_page)) ! 6) = ''2026''"
  by code_simp

end
